theory Spec2Isabelle
  imports Main "HOL-Library.Word"
begin

section \<open>The WebRTC output sink of libcamera-apps\<close>

text \<open>
  The development embeds \<^verbatim>\<open>src/libs/eyecam_net.h\<close> (the \<^verbatim>\<open>EyecamNet\<close> session
  wrapper) and \<^verbatim>\<open>src/output/webrtc_output.cpp\<close> with its header (the
  \<^verbatim>\<open>WebrtcOutput\<close> sink). Everything the C++ does beyond returning a value is an
  event appended to a trace: the calls into the native \<^verbatim>\<open>eyecam_net\<close> library, the
  log macros and the process exit.
\<close>

subsection \<open>C types\<close>

text \<open>
  The build script targets \<^verbatim>\<open>aarch64-unknown-linux-gnu\<close>: pointers and
  \<^verbatim>\<open>size_t\<close> are 64 bits wide, \<^verbatim>\<open>int\<close> is 32 bits wide. A signed integer is a
  word read with \<open>sint\<close>, an unsigned one a word read with \<open>uint\<close>.
\<close>

type_synonym ptr = "64 word"
type_synonym size_t = "64 word"
type_synonym c_int = "32 word"
type_synonym int64_t = "64 word"
type_synonym uint64_t = "64 word"
type_synonym uint32_t = "32 word"

text \<open>
  The integral conversion from \<^verbatim>\<open>int64_t\<close> to \<^verbatim>\<open>uint64_t\<close>: the unique value
  congruent to the source modulo \<open>2 ^ 64\<close>.
\<close>

definition to_uint64 :: "int64_t \<Rightarrow> uint64_t" where
  "to_uint64 x = word_of_int (sint x)"

subsection \<open>Observable events\<close>

text \<open>
  One operand of a \<^verbatim>\<open><<\<close> chain handed to the \<^verbatim>\<open>LOG\<close> macro: a string or a number.
\<close>

datatype log_item = Text string | Number int

text \<open>
  The calls that leave the sink, with their arguments. \<^verbatim>\<open>Net_init\<close> carries the handle
  that \<^verbatim>\<open>eyecam_net_init\<close> returned; the write call carries \<^verbatim>\<open>state\<close>,
  \<^verbatim>\<open>len\<close>, \<^verbatim>\<open>data\<close> and \<^verbatim>\<open>duration_us\<close> in the order of the C prototype.
\<close>

datatype event =
    Net_init ptr
  | Net_deinit ptr
  | Net_wait_for_connection ptr string
  | Net_write_video ptr size_t ptr uint64_t
  | LOG nat "log_item list"
  | LOG_ERROR string

text \<open>
  How a call can fail to return to its caller: \<^verbatim>\<open>std::exit\<close> with a status, or a
  blocking library call that never comes back.
\<close>

datatype halt = Exit int | Never_returns

subsection \<open>The native transport library\<close>

text \<open>
  The functions declared \<^verbatim>\<open>extern "C"\<close> in \<^verbatim>\<open>eyecam_net.h\<close> are implemented outside
  the repository's sources, so their answers are parameters of the model.
  \<^verbatim>\<open>eyecam_net_init\<close> answers with a handle. \<^verbatim>\<open>eyecam_net_wait_for_connection\<close>
  answers with an \<^verbatim>\<open>int\<close>, or with \<open>None\<close> when the blocking handshake never
  returns. \<^verbatim>\<open>eyecam_net_write_video\<close> is called once per frame, so its answer may
  depend on everything that happened before the call (the trace so far) as well as on
  its arguments. The value \<^verbatim>\<open>eyecam_net_deinit\<close> returns is discarded by the code.
\<close>

record transport =
  eyecam_net_init :: ptr
  eyecam_net_wait_for_connection :: "ptr \<Rightarrow> string \<Rightarrow> c_int option"
  eyecam_net_write_video :: "event list \<Rightarrow> ptr \<Rightarrow> size_t \<Rightarrow> ptr \<Rightarrow> uint64_t \<Rightarrow> c_int"

subsection \<open>Data\<close>

text \<open>The two fields of \<^verbatim>\<open>VideoOptions\<close> that the sink reads.\<close>

record VideoOptions =
  codec :: string
  webrtc :: string

record EyecamNet =
  state :: ptr

record WebrtcOutput =
  net :: EyecamNet
  last_timestamp_us :: uint64_t

text \<open>The arguments of one \<^verbatim>\<open>outputBuffer\<close> call.\<close>

record frame =
  frame_mem :: ptr
  frame_size :: size_t
  frame_timestamp_us :: int64_t
  frame_flags :: uint32_t

subsection \<open>\<^verbatim>\<open>EyecamNet\<close>\<close>

text \<open>
  \<^verbatim>\<open>EyecamNet() { state = eyecam_net_init(); }\<close> and
  \<^verbatim>\<open>~EyecamNet() { eyecam_net_deinit(state); }\<close>.
\<close>

definition EyecamNet_ctor :: "transport \<Rightarrow> event list \<Rightarrow> EyecamNet \<times> event list" where
  "EyecamNet_ctor T tr =
     (let s = eyecam_net_init T in (\<lparr>state = s\<rparr>, tr @ [Net_init s]))"

definition EyecamNet_dtor :: "EyecamNet \<Rightarrow> event list \<Rightarrow> event list" where
  "EyecamNet_dtor this tr = tr @ [Net_deinit (state this)]"

subsection \<open>\<^verbatim>\<open>WebrtcOutput\<close>\<close>

text \<open>
  The constructor. The member initialisers run first (\<^verbatim>\<open>net()\<close>, then
  \<^verbatim>\<open>last_timestamp_us(0)\<close>), then the body: the codec check with its early
  \<^verbatim>\<open>return\<close>, the blocking handshake, and \<^verbatim>\<open>std::exit(51)\<close> when the handshake
  answered 0. The base class constructor \<^verbatim>\<open>Output(options)\<close> belongs to the
  surrounding pipeline and is not part of the model. (The sources also hold an earlier
  copy of the file whose constructor ends after the second \<^verbatim>\<open>LOG\<close>, without the
  exit; the model follows \<^verbatim>\<open>src/output/webrtc_output.cpp\<close>.)
\<close>

definition WebrtcOutput_ctor ::
  "transport \<Rightarrow> VideoOptions \<Rightarrow> event list \<Rightarrow> (halt + WebrtcOutput) \<times> event list" where
  "WebrtcOutput_ctor T options tr =
     (let (n, tr1) = EyecamNet_ctor T tr;
          this = \<lparr>net = n, last_timestamp_us = 0\<rparr>
      in if codec options \<noteq> ''h264''
         then (Inr this, tr1 @ [LOG_ERROR ''Webrtc only works with h264 for now. Sorry!''])
         else
           let tr2 = tr1 @ [LOG 1 [Text ''Waiting for RTC connection (namespace: '',
                                   Text (webrtc options), Text '')'']];
               tr3 = tr2 @ [Net_wait_for_connection (state n) (webrtc options)]
           in case eyecam_net_wait_for_connection T (state n) (webrtc options) of
                None \<Rightarrow> (Inl Never_returns, tr3)
              | Some connected \<Rightarrow>
                  let tr4 = tr3 @ [LOG 1 [Text ''Connected!? '', Number (sint connected)]]
                  in if connected = 0
                     then (Inl (Exit 51),
                           tr4 @ [LOG_ERROR ''WebRTC connection failed. Shutting down.''])
                     else (Inr this, tr4))"

text \<open>
  \<^verbatim>\<open>outputBuffer\<close>. The subtraction \<^verbatim>\<open>timestamp_us - last_timestamp_us\<close> has an
  \<^verbatim>\<open>int64_t\<close> and a \<^verbatim>\<open>uint64_t\<close> operand: the signed one is converted to
  \<^verbatim>\<open>uint64_t\<close> and the difference is taken modulo \<open>2 ^ 64\<close>. The assignment to
  \<^verbatim>\<open>last_timestamp_us\<close> makes the same conversion. There is no test of the codec
  and no test of the connection in this function.
\<close>

definition outputBuffer ::
  "transport \<Rightarrow> WebrtcOutput \<Rightarrow> ptr \<Rightarrow> size_t \<Rightarrow> int64_t \<Rightarrow> uint32_t \<Rightarrow> event list
     \<Rightarrow> WebrtcOutput \<times> event list" where
  "outputBuffer T this mem size' timestamp_us flags tr =
     (let duration_us = to_uint64 timestamp_us - last_timestamp_us this;
          success = eyecam_net_write_video T tr (state (net this)) size' mem duration_us;
          tr1 = tr @ [Net_write_video (state (net this)) size' mem duration_us];
          this1 = this\<lparr>last_timestamp_us := to_uint64 timestamp_us\<rparr>
      in if success = 0
         then (this1, tr1 @ [LOG_ERROR ''Failed to send samples?''])
         else (this1, tr1))"

text \<open>
  The destructor is the implicit one: it destroys the member \<^verbatim>\<open>net\<close>, which runs
  \<^verbatim>\<open>~EyecamNet\<close>.
\<close>

definition WebrtcOutput_dtor :: "WebrtcOutput \<Rightarrow> event list \<Rightarrow> event list" where
  "WebrtcOutput_dtor this tr = EyecamNet_dtor (net this) tr"

subsection \<open>A streaming run\<close>

text \<open>
  Modelled from the spec: the caller of the sink, which is not among the sources, hands
  it the frames one after the other. \<open>deliver\<close> does nothing but call
  \<^verbatim>\<open>outputBuffer\<close> for each frame in turn, passing the sink and the trace along.
\<close>

fun deliver ::
  "transport \<Rightarrow> WebrtcOutput \<Rightarrow> frame list \<Rightarrow> event list \<Rightarrow> WebrtcOutput \<times> event list" where
  "deliver T this [] tr = (this, tr)"
| "deliver T this (f # fs) tr =
     (let (this1, tr1) = outputBuffer T this (frame_mem f) (frame_size f) (frame_timestamp_us f) (frame_flags f) tr
      in deliver T this1 fs tr1)"

text \<open>
  Modelled from the spec: the surrounding capture pipeline, which is not among the
  sources, constructs the sink once, delivers the frames, and destroys the sink at the end
  of the run. When the constructor does not return (process exit, or a handshake that
  blocks forever) nothing else happens. \<open>run\<close> starts from the empty trace.
\<close>

definition run :: "transport \<Rightarrow> VideoOptions \<Rightarrow> frame list \<Rightarrow> halt option \<times> event list" where
  "run T options fs =
     (case WebrtcOutput_ctor T options [] of
        (Inl h, tr) \<Rightarrow> (Some h, tr)
      | (Inr this, tr) \<Rightarrow>
          (let (this1, tr1) = deliver T this fs tr in (None, WebrtcOutput_dtor this1 tr1)))"

subsection \<open>Reading a trace\<close>

text \<open>The \<^verbatim>\<open>eyecam_net_write_video\<close> calls of a trace, in order, with their arguments.\<close>

fun write_video_calls :: "event list \<Rightarrow> (ptr \<times> size_t \<times> ptr \<times> uint64_t) list" where
  "write_video_calls [] = []"
| "write_video_calls (Net_write_video s n d us # es) = (s, n, d, us) # write_video_calls es"
| "write_video_calls (e # es) = write_video_calls es"

text \<open>The durations handed to \<^verbatim>\<open>eyecam_net_write_video\<close>, as unsigned numbers.\<close>

definition durations :: "event list \<Rightarrow> int list" where
  "durations tr = map (\<lambda>(s, n, d, us). uint us) (write_video_calls tr)"

text \<open>
  What was handed to \<^verbatim>\<open>eyecam_net_write_video\<close> apart from the duration: the session
  handle, the data pointer and the length.
\<close>

definition forwarded :: "event list \<Rightarrow> (ptr \<times> ptr \<times> size_t) list" where
  "forwarded tr = map (\<lambda>(s, n, d, us). (s, d, n)) (write_video_calls tr)"

text \<open>The handles that were acquired, released and waited on.\<close>

fun acquired :: "event list \<Rightarrow> ptr list" where
  "acquired [] = []"
| "acquired (Net_init s # es) = s # acquired es"
| "acquired (e # es) = acquired es"

fun released :: "event list \<Rightarrow> ptr list" where
  "released [] = []"
| "released (Net_deinit s # es) = s # released es"
| "released (e # es) = released es"

fun handshakes :: "event list \<Rightarrow> (ptr \<times> string) list" where
  "handshakes [] = []"
| "handshakes (Net_wait_for_connection s name # es) = (s, name) # handshakes es"
| "handshakes (e # es) = handshakes es"

subsection \<open>The durations in the words of the specification\<close>


text \<open>The timestamps of a sequence of frames, as the signed numbers they are.\<close>

definition timestamps :: "frame list \<Rightarrow> int list" where
  "timestamps fs = map (\<lambda>f. sint (frame_timestamp_us f)) fs"

subsection \<open>Example inputs\<close>

text \<open>
  Four transports: one whose peer joins and whose writes succeed, one whose peer joins
  and whose writes all fail, one whose handshake reports failure, and one whose
  handshake never returns.
\<close>

definition peer_joins :: transport where
  "peer_joins =
     \<lparr>eyecam_net_init = 4096,
      eyecam_net_wait_for_connection = (\<lambda>s name. Some 1),
      eyecam_net_write_video = (\<lambda>tr s n d us. 1)\<rparr>"

definition writes_fail :: transport where
  "writes_fail =
     \<lparr>eyecam_net_init = 4096,
      eyecam_net_wait_for_connection = (\<lambda>s name. Some 1),
      eyecam_net_write_video = (\<lambda>tr s n d us. 0)\<rparr>"

definition no_peer :: transport where
  "no_peer =
     \<lparr>eyecam_net_init = 4096,
      eyecam_net_wait_for_connection = (\<lambda>s name. Some 0),
      eyecam_net_write_video = (\<lambda>tr s n d us. 1)\<rparr>"

definition handshake_blocks :: transport where
  "handshake_blocks =
     \<lparr>eyecam_net_init = 4096,
      eyecam_net_wait_for_connection = (\<lambda>s name. None),
      eyecam_net_write_video = (\<lambda>tr s n d us. 1)\<rparr>"

definition h264_options :: VideoOptions where
  "h264_options = \<lparr>codec = ''h264'', webrtc = ''eyecam''\<rparr>"

definition mjpeg_options :: VideoOptions where
  "mjpeg_options = \<lparr>codec = ''mjpeg'', webrtc = ''eyecam''\<rparr>"

text \<open>A frame of 1024 bytes at address 8192 with the given timestamp.\<close>

definition frame_at :: "int64_t \<Rightarrow> frame" where
  "frame_at t = \<lparr>frame_mem = 8192, frame_size = 1024, frame_timestamp_us = t, frame_flags = 0\<rparr>"

section \<open>Properties\<close>

subsection \<open>Traces\<close>

lemma write_video_calls_append [simp]:
  "write_video_calls (xs @ ys) = write_video_calls xs @ write_video_calls ys"
  by (induction xs rule: write_video_calls.induct) simp_all

lemma acquired_append [simp]: "acquired (xs @ ys) = acquired xs @ acquired ys"
  by (induction xs rule: acquired.induct) simp_all

lemma released_append [simp]: "released (xs @ ys) = released xs @ released ys"
  by (induction xs rule: released.induct) simp_all

lemma handshakes_append [simp]: "handshakes (xs @ ys) = handshakes xs @ handshakes ys"
  by (induction xs rule: handshakes.induct) simp_all

lemma durations_append [simp]: "durations (xs @ ys) = durations xs @ durations ys"
  by (simp add: durations_def)

lemma forwarded_append [simp]: "forwarded (xs @ ys) = forwarded xs @ forwarded ys"
  by (simp add: forwarded_def)

subsection \<open>64-bit arithmetic\<close>

lemma uint_sint_mod: "uint (x :: 64 word) = sint x mod 2 ^ 64"
  by (simp add: uint_sint take_bit_eq_mod)

lemma to_uint64_id: "to_uint64 x = x"
  by (simp add: to_uint64_def)

lemma uint_to_uint64: "uint (to_uint64 x) = sint x mod 2 ^ 64"
  by (simp add: to_uint64_id uint_sint_mod)

lemma uint_duration: "uint (to_uint64 ts - l) = (sint ts - uint l) mod 2 ^ 64"
proof -
  have "uint (to_uint64 ts - l) = (uint ts - uint l) mod 2 ^ 64"
    by (simp add: to_uint64_id uint_word_ariths)
  also have "\<dots> = (sint ts mod 2 ^ 64 - uint l) mod 2 ^ 64"
    by (simp only: uint_sint_mod)
  also have "\<dots> = (sint ts - uint l) mod 2 ^ 64"
    by (rule mod_diff_left_eq)
  finally show ?thesis .
qed

lemma uint_duration_cong:
  assumes "prev mod 2 ^ 64 = uint l"
  shows "uint (to_uint64 ts - l) = (sint ts - prev) mod 2 ^ 64"
proof -
  have "(sint ts - uint l) mod 2 ^ 64 = (sint ts - prev mod 2 ^ 64) mod 2 ^ 64"
    by (simp only: assms)
  also have "\<dots> = (sint ts - prev) mod 2 ^ 64"
    by (rule mod_diff_right_eq)
  finally show ?thesis by (simp only: uint_duration)
qed

lemma sint_range64: "- (2 ^ 63) \<le> sint (x :: 64 word) \<and> sint x < 2 ^ 63"
  using sint_ge [of x] sint_lt [of x] by simp

lemma mod_wrap:
  assumes "- (2 ^ 64) \<le> (d::int)" and "d < 0"
  shows "d mod 2 ^ 64 = d + 2 ^ 64"
proof -
  have "d mod 2 ^ 64 = (d + 2 ^ 64) mod 2 ^ 64" by simp
  also have "\<dots> = d + 2 ^ 64" using assms by (intro mod_pos_pos_trivial) simp_all
  finally show ?thesis .
qed

lemma sint_diff_exact:
  fixes a b :: "64 word"
  assumes "sint b \<le> sint a"
  shows "(sint a - sint b) mod 2 ^ 64 = sint a - sint b"
  using assms sint_range64 [of a] sint_range64 [of b]
  by (intro mod_pos_pos_trivial) simp_all

lemma sint_diff_wraps:
  fixes a b :: "64 word"
  assumes "sint a < sint b"
  shows "(sint a - sint b) mod 2 ^ 64 = sint a - sint b + 2 ^ 64"
  using assms sint_range64 [of a] sint_range64 [of b]
  by (intro mod_wrap) simp_all

subsection \<open>One call of \<^verbatim>\<open>outputBuffer\<close>\<close>

lemma outputBuffer_this:
  "fst (outputBuffer T this m sz ts fl tr) = this\<lparr>last_timestamp_us := to_uint64 ts\<rparr>"
  by (simp add: outputBuffer_def Let_def)

lemma outputBuffer_calls:
  "write_video_calls (snd (outputBuffer T this m sz ts fl tr)) =
     write_video_calls tr @ [(state (net this), sz, m, to_uint64 ts - last_timestamp_us this)]"
  by (simp add: outputBuffer_def Let_def)

lemma outputBuffer_session:
  "acquired (snd (outputBuffer T this m sz ts fl tr)) = acquired tr"
  "released (snd (outputBuffer T this m sz ts fl tr)) = released tr"
  "handshakes (snd (outputBuffer T this m sz ts fl tr)) = handshakes tr"
  by (simp_all add: outputBuffer_def Let_def)

lemma outputBuffer_durations:
  "durations (snd (outputBuffer T this m sz ts fl tr)) =
     durations tr @ [(sint ts - uint (last_timestamp_us this)) mod 2 ^ 64]"
  by (simp only: durations_def outputBuffer_calls map_append list.map prod.case uint_duration)

lemma outputBuffer_twice_durations:
  "durations (snd (outputBuffer T (fst (outputBuffer T this m0 sz0 prev fl0 tr0)) m sz ts fl tr)) =
     durations tr @ [(sint ts - sint prev) mod 2 ^ 64]"
proof -
  have "sint prev mod 2 ^ 64 =
      uint (last_timestamp_us (fst (outputBuffer T this m0 sz0 prev fl0 tr0)))"
    by (simp add: outputBuffer_this uint_to_uint64)
  then have "uint (to_uint64 ts - last_timestamp_us (fst (outputBuffer T this m0 sz0 prev fl0 tr0)))
      = (sint ts - sint prev) mod 2 ^ 64"
    by (rule uint_duration_cong)
  then show ?thesis
    by (simp only: durations_def outputBuffer_calls map_append list.map prod.case)
qed

subsection \<open>A sequence of frames\<close>

lemma deliver_net: "net (fst (deliver T this fs tr)) = net this"
  by (induction fs arbitrary: this tr) (simp_all add: split_beta outputBuffer_this)

lemma deliver_session:
  "acquired (snd (deliver T this fs tr)) = acquired tr"
  "released (snd (deliver T this fs tr)) = released tr"
  "handshakes (snd (deliver T this fs tr)) = handshakes tr"
  by (induction fs arbitrary: this tr) (simp_all add: split_beta outputBuffer_session)

lemma deliver_forwarded:
  "forwarded (snd (deliver T this fs tr)) =
     forwarded tr @ map (\<lambda>f. (state (net this), frame_mem f, frame_size f)) fs"
proof (induction fs arbitrary: this tr)
  case Nil
  show ?case by simp
next
  case (Cons f fs)
  have step: "forwarded (snd (outputBuffer T this (frame_mem f) (frame_size f) (frame_timestamp_us f) (frame_flags f) tr))
      = forwarded tr @ [(state (net this), frame_mem f, frame_size f)]"
    by (simp add: forwarded_def outputBuffer_calls)
  show ?case
    by (simp add: split_beta Cons.IH step outputBuffer_this)
qed





subsection \<open>The constructor\<close>

lemma ctor_mismatch:
  assumes "codec options \<noteq> ''h264''"
  shows "WebrtcOutput_ctor T options tr =
     (Inr \<lparr>net = \<lparr>state = eyecam_net_init T\<rparr>, last_timestamp_us = 0\<rparr>,
      tr @ [Net_init (eyecam_net_init T),
            LOG_ERROR ''Webrtc only works with h264 for now. Sorry!''])"
  using assms by (simp add: WebrtcOutput_ctor_def EyecamNet_ctor_def Let_def)

lemma ctor_no_peer:
  assumes "codec options = ''h264''"
    and "eyecam_net_wait_for_connection T (eyecam_net_init T) (webrtc options) = Some 0"
  shows "WebrtcOutput_ctor T options tr =
     (Inl (Exit 51),
      tr @ [Net_init (eyecam_net_init T),
            LOG 1 [Text ''Waiting for RTC connection (namespace: '', Text (webrtc options),
                   Text '')''],
            Net_wait_for_connection (eyecam_net_init T) (webrtc options),
            LOG 1 [Text ''Connected!? '', Number 0],
            LOG_ERROR ''WebRTC connection failed. Shutting down.''])"
  using assms by (simp add: WebrtcOutput_ctor_def EyecamNet_ctor_def Let_def)

lemma ctor_blocked:
  assumes "codec options = ''h264''"
    and "eyecam_net_wait_for_connection T (eyecam_net_init T) (webrtc options) = None"
  shows "WebrtcOutput_ctor T options tr =
     (Inl Never_returns,
      tr @ [Net_init (eyecam_net_init T),
            LOG 1 [Text ''Waiting for RTC connection (namespace: '', Text (webrtc options),
                   Text '')''],
            Net_wait_for_connection (eyecam_net_init T) (webrtc options)])"
  using assms by (simp add: WebrtcOutput_ctor_def EyecamNet_ctor_def Let_def)

lemma ctor_connected:
  assumes "codec options = ''h264''"
    and "eyecam_net_wait_for_connection T (eyecam_net_init T) (webrtc options) = Some c"
    and "c \<noteq> 0"
  shows "WebrtcOutput_ctor T options tr =
     (Inr \<lparr>net = \<lparr>state = eyecam_net_init T\<rparr>, last_timestamp_us = 0\<rparr>,
      tr @ [Net_init (eyecam_net_init T),
            LOG 1 [Text ''Waiting for RTC connection (namespace: '', Text (webrtc options),
                   Text '')''],
            Net_wait_for_connection (eyecam_net_init T) (webrtc options),
            LOG 1 [Text ''Connected!? '', Number (sint c)]])"
  using assms by (simp add: WebrtcOutput_ctor_def EyecamNet_ctor_def Let_def)

lemma ctor_cases:
  obtains (mismatch) "codec options \<noteq> ''h264''"
  | (blocked) "codec options = ''h264''"
      "eyecam_net_wait_for_connection T (eyecam_net_init T) (webrtc options) = None"
  | (no_peer) "codec options = ''h264''"
      "eyecam_net_wait_for_connection T (eyecam_net_init T) (webrtc options) = Some 0"
  | (connected) c where "codec options = ''h264''"
      "eyecam_net_wait_for_connection T (eyecam_net_init T) (webrtc options) = Some c" "c \<noteq> 0"
  by (cases "eyecam_net_wait_for_connection T (eyecam_net_init T) (webrtc options)") auto

lemma ctor_returned:
  assumes "fst (WebrtcOutput_ctor T options tr) = Inr this"
  shows "this = \<lparr>net = \<lparr>state = eyecam_net_init T\<rparr>, last_timestamp_us = 0\<rparr>"
  using assms
  by (cases rule: ctor_cases [where T = T and options = options])
     (simp_all add: ctor_mismatch ctor_blocked ctor_no_peer ctor_connected)

lemma ctor_session:
  "acquired (snd (WebrtcOutput_ctor T options tr)) = acquired tr @ [eyecam_net_init T]"
  "released (snd (WebrtcOutput_ctor T options tr)) = released tr"
  "write_video_calls (snd (WebrtcOutput_ctor T options tr)) = write_video_calls tr"
  by (cases rule: ctor_cases [where T = T and options = options];
      simp add: ctor_mismatch ctor_blocked ctor_no_peer ctor_connected)+

subsection \<open>A whole run\<close>

lemma run_halted:
  assumes "fst (WebrtcOutput_ctor T options []) = Inl x"
  shows "run T options fs = (Some x, snd (WebrtcOutput_ctor T options []))"
  using assms by (cases "WebrtcOutput_ctor T options []") (simp add: run_def)

lemma run_returned:
  assumes "fst (WebrtcOutput_ctor T options []) = Inr this"
  shows "run T options fs =
     (None, snd (deliver T this fs (snd (WebrtcOutput_ctor T options [])))
            @ [Net_deinit (eyecam_net_init T)])"
proof -
  have "state (net (fst (deliver T this fs tr))) = eyecam_net_init T" for tr
    using ctor_returned [OF assms] by (simp add: deliver_net)
  with assms show ?thesis
    by (cases "WebrtcOutput_ctor T options []")
       (simp add: run_def split_beta WebrtcOutput_dtor_def EyecamNet_dtor_def)
qed

lemma run_outcome:
  "fst (run T options fs) =
     (case fst (WebrtcOutput_ctor T options []) of Inl x \<Rightarrow> Some x | Inr this \<Rightarrow> None)"
  by (cases "WebrtcOutput_ctor T options []") (simp add: run_def split_beta split: sum.splits)

lemma run_returned_iff:
  "fst (run T options fs) = None \<longleftrightarrow>
     fst (WebrtcOutput_ctor T options []) =
       Inr \<lparr>net = \<lparr>state = eyecam_net_init T\<rparr>, last_timestamp_us = 0\<rparr>"
proof
  assume "fst (run T options fs) = None"
  then obtain this where r: "fst (WebrtcOutput_ctor T options []) = Inr this"
    by (auto simp: run_outcome split: sum.splits)
  with ctor_returned [OF r] show "fst (WebrtcOutput_ctor T options []) =
       Inr \<lparr>net = \<lparr>state = eyecam_net_init T\<rparr>, last_timestamp_us = 0\<rparr>"
    by simp
next
  assume "fst (WebrtcOutput_ctor T options []) =
       Inr \<lparr>net = \<lparr>state = eyecam_net_init T\<rparr>, last_timestamp_us = 0\<rparr>"
  then show "fst (run T options fs) = None" by (simp add: run_outcome)
qed

lemma run_returned_trace:
  assumes "fst (run T options fs) = None"
  shows "snd (run T options fs) =
     snd (deliver T \<lparr>net = \<lparr>state = eyecam_net_init T\<rparr>, last_timestamp_us = 0\<rparr> fs
            (snd (WebrtcOutput_ctor T options [])))
     @ [Net_deinit (eyecam_net_init T)]"
  using assms run_returned [of T options _ fs] by (simp add: run_returned_iff)

lemma run_halted_trace:
  assumes "fst (run T options fs) = Some x"
  shows "snd (run T options fs) = snd (WebrtcOutput_ctor T options [])"
proof -
  from assms have "fst (WebrtcOutput_ctor T options []) = Inl x"
    by (auto simp: run_outcome split: sum.splits)
  then show ?thesis by (simp add: run_halted)
qed

lemma run_returned_session:
  assumes "fst (run T options fs) = None"
  shows "acquired (snd (run T options fs)) = [eyecam_net_init T]"
    and "released (snd (run T options fs)) = [eyecam_net_init T]"
    and "released (butlast (snd (run T options fs))) = []"
    and "last (snd (run T options fs)) = Net_deinit (eyecam_net_init T)"
    and "forwarded (snd (run T options fs)) =
           map (\<lambda>f. (eyecam_net_init T, frame_mem f, frame_size f)) fs"
proof -
  have "forwarded (snd (WebrtcOutput_ctor T options [])) = []"
    by (simp add: forwarded_def ctor_session)
  moreover have "forwarded [Net_deinit (eyecam_net_init T)] = []"
    by (simp add: forwarded_def)
  ultimately show "forwarded (snd (run T options fs)) =
           map (\<lambda>f. (eyecam_net_init T, frame_mem f, frame_size f)) fs"
    by (simp add: run_returned_trace [OF assms] deliver_forwarded)
qed (simp_all add: run_returned_trace [OF assms] deliver_session ctor_session)

lemma run_halted_session:
  assumes "fst (run T options fs) = Some x"
  shows "acquired (snd (run T options fs)) = [eyecam_net_init T]"
    and "released (snd (run T options fs)) = []"
    and "write_video_calls (snd (run T options fs)) = []"
  by (simp_all add: run_halted_trace [OF assms] ctor_session)

lemma run_mismatch:
  assumes "codec options \<noteq> ''h264''"
  shows "fst (run T options fs) = None"
  by (simp add: run_returned_iff ctor_mismatch [OF assms])

lemma run_connected:
  assumes "codec options = ''h264''"
    and "eyecam_net_wait_for_connection T (eyecam_net_init T) (webrtc options) = Some c"
    and "c \<noteq> 0"
  shows "fst (run T options fs) = None"
  by (simp add: run_returned_iff ctor_connected [OF assms])

lemma run_no_peer:
  assumes "codec options = ''h264''"
    and "eyecam_net_wait_for_connection T (eyecam_net_init T) (webrtc options) = Some 0"
  shows "fst (run T options fs) = Some (Exit 51)"
  by (simp add: run_outcome ctor_no_peer [OF assms])

lemma run_blocked:
  assumes "codec options = ''h264''"
    and "eyecam_net_wait_for_connection T (eyecam_net_init T) (webrtc options) = None"
  shows "fst (run T options fs) = Some Never_returns"
  by (simp add: run_outcome ctor_blocked [OF assms])

section \<open>The claims\<close>

subsection \<open>Construction: connection failure and codec mismatch\<close>

text \<open>
  Claim C1. When the codec is \<^verbatim>\<open>"h264"\<close> and \<^verbatim>\<open>eyecam_net_wait_for_connection\<close>
  answers 0 during construction, the constructor ends in \<^verbatim>\<open>std::exit(51)\<close>: the run
  stops there with exit status 51, its last event is the error log, and no
  \<^verbatim>\<open>eyecam_net_write_video\<close> call is made, whatever frames were waiting.
\<close>

theorem connection_failure_exits_51:
  assumes "codec options = ''h264''"
    and "eyecam_net_wait_for_connection T (eyecam_net_init T) (webrtc options) = Some 0"
  shows "fst (WebrtcOutput_ctor T options tr) = Inl (Exit 51)
    \<and> run T options fs =
        (Some (Exit 51),
         [Net_init (eyecam_net_init T),
          LOG 1 [Text ''Waiting for RTC connection (namespace: '', Text (webrtc options),
                 Text '')''],
          Net_wait_for_connection (eyecam_net_init T) (webrtc options),
          LOG 1 [Text ''Connected!? '', Number 0],
          LOG_ERROR ''WebRTC connection failed. Shutting down.''])
    \<and> write_video_calls (snd (run T options fs)) = []"
proof -
  have c: "fst (WebrtcOutput_ctor T options tr) = Inl (Exit 51)" for tr
    by (simp add: ctor_no_peer [OF assms])
  have "run T options fs = (Some (Exit 51), snd (WebrtcOutput_ctor T options []))"
    by (rule run_halted [OF c])
  then have r: "run T options fs =
        (Some (Exit 51),
         [Net_init (eyecam_net_init T),
          LOG 1 [Text ''Waiting for RTC connection (namespace: '', Text (webrtc options),
                 Text '')''],
          Net_wait_for_connection (eyecam_net_init T) (webrtc options),
          LOG 1 [Text ''Connected!? '', Number 0],
          LOG_ERROR ''WebRTC connection failed. Shutting down.''])"
    by (simp add: ctor_no_peer [OF assms])
  have "write_video_calls (snd (run T options fs)) = []"
    by (simp add: r)
  with c r show ?thesis by simp
qed

text \<open>
  Claim C1, at a concrete input: the transport \<open>no_peer\<close> and two waiting frames.
\<close>

theorem connection_failure_exits_51_witness:
  "codec h264_options = ''h264''
   \<and> eyecam_net_wait_for_connection no_peer (eyecam_net_init no_peer) (webrtc h264_options) = Some 0
   \<and> fst (run no_peer h264_options [frame_at 0, frame_at 33000]) = Some (Exit 51)
   \<and> write_video_calls (snd (run no_peer h264_options [frame_at 0, frame_at 33000])) = []"
proof -
  have h1: "codec h264_options = ''h264''" by (simp add: h264_options_def)
  have h2: "eyecam_net_wait_for_connection no_peer (eyecam_net_init no_peer) (webrtc h264_options)
      = Some 0" by (simp add: no_peer_def)
  show ?thesis
    using h1 h2 connection_failure_exits_51 [OF h1 h2, of "[]" "[frame_at 0, frame_at 33000]"]
    by simp
qed

text \<open>
  Claim C5. When the codec is not \<^verbatim>\<open>"h264"\<close> the constructor returns the sink
  (it neither exits nor blocks); after the member initialisation its only action is the
  error log, and \<^verbatim>\<open>eyecam_net_wait_for_connection\<close> is not called.
\<close>

theorem codec_mismatch_is_absorbed:
  assumes "codec options \<noteq> ''h264''"
  shows "WebrtcOutput_ctor T options tr =
      (Inr \<lparr>net = \<lparr>state = eyecam_net_init T\<rparr>, last_timestamp_us = 0\<rparr>,
       tr @ [Net_init (eyecam_net_init T),
             LOG_ERROR ''Webrtc only works with h264 for now. Sorry!''])
    \<and> handshakes (snd (WebrtcOutput_ctor T options tr)) = handshakes tr"
  by (simp add: ctor_mismatch [OF assms])

text \<open>
  Claim C5 at the codec \<^verbatim>\<open>"mjpeg"\<close>, with a transport whose handshake would fail.
\<close>

theorem codec_mismatch_is_absorbed_witness:
  "codec mjpeg_options \<noteq> ''h264''
   \<and> WebrtcOutput_ctor no_peer mjpeg_options [] =
      (Inr \<lparr>net = \<lparr>state = 4096\<rparr>, last_timestamp_us = 0\<rparr>,
       [Net_init 4096, LOG_ERROR ''Webrtc only works with h264 for now. Sorry!''])"
proof -
  have h: "codec mjpeg_options \<noteq> ''h264''" by (simp add: mjpeg_options_def)
  show ?thesis
    using h codec_mismatch_is_absorbed [OF h, of no_peer "[]"] by (simp add: no_peer_def)
qed

text \<open>
  Claim C4, as stated, at the codec \<^verbatim>\<open>"mjpeg"\<close> and two frames: both frames reach
  \<^verbatim>\<open>eyecam_net_write_video\<close>.
\<close>

theorem disabled_sink_counterexample:
  "codec mjpeg_options \<noteq> ''h264''
   \<and> write_video_calls (snd (run peer_joins mjpeg_options [frame_at 0, frame_at 33000]))
       = [(4096, 1024, 8192, 0), (4096, 1024, 8192, 33000)]"
  by (simp add: run_def WebrtcOutput_ctor_def EyecamNet_ctor_def WebrtcOutput_dtor_def
      EyecamNet_dtor_def outputBuffer_def to_uint64_def peer_joins_def mjpeg_options_def
      frame_at_def Let_def)

text \<open>
  Claim C4, amended. For every codec other than \<^verbatim>\<open>"h264"\<close> the constructor returns
  without a handshake, and \<^verbatim>\<open>outputBuffer\<close>, which never looks at the codec, still
  makes exactly one \<^verbatim>\<open>eyecam_net_write_video\<close> call per frame, in the order of the
  frames, on the session that was never connected.
\<close>

theorem codec_mismatch_frames_still_written:
  assumes "codec options \<noteq> ''h264''"
  shows "WebrtcOutput_ctor T options [] =
      (Inr \<lparr>net = \<lparr>state = eyecam_net_init T\<rparr>, last_timestamp_us = 0\<rparr>,
       [Net_init (eyecam_net_init T),
        LOG_ERROR ''Webrtc only works with h264 for now. Sorry!''])
    \<and> forwarded (snd (deliver T \<lparr>net = \<lparr>state = eyecam_net_init T\<rparr>, last_timestamp_us = 0\<rparr> fs
          [Net_init (eyecam_net_init T),
           LOG_ERROR ''Webrtc only works with h264 for now. Sorry!'']))
        = map (\<lambda>f. (eyecam_net_init T, frame_mem f, frame_size f)) fs
    \<and> fst (run T options fs) = None
    \<and> handshakes (snd (run T options fs)) = []
    \<and> forwarded (snd (run T options fs)) =
        map (\<lambda>f. (eyecam_net_init T, frame_mem f, frame_size f)) fs
    \<and> length (write_video_calls (snd (run T options fs))) = length fs"
proof -
  let ?w = "\<lparr>net = \<lparr>state = eyecam_net_init T\<rparr>, last_timestamp_us = 0\<rparr>"
  let ?tr = "[Net_init (eyecam_net_init T),
              LOG_ERROR ''Webrtc only works with h264 for now. Sorry!'']"
  have c: "WebrtcOutput_ctor T options [] = (Inr ?w, ?tr)"
    by (simp add: ctor_mismatch [OF assms])
  have "forwarded ?tr = []" by (simp add: forwarded_def)
  then have d: "forwarded (snd (deliver T ?w fs ?tr)) =
      map (\<lambda>f. (eyecam_net_init T, frame_mem f, frame_size f)) fs"
    by (simp add: deliver_forwarded)
  have r: "fst (run T options fs) = None" by (rule run_mismatch [OF assms])
  have h: "handshakes (snd (run T options fs)) = []"
    by (simp add: run_returned_trace [OF r] deliver_session ctor_mismatch [OF assms])
  have f: "forwarded (snd (run T options fs)) =
      map (\<lambda>f. (eyecam_net_init T, frame_mem f, frame_size f)) fs"
    by (rule run_returned_session(5) [OF r])
  have "length (forwarded (snd (run T options fs))) = length fs"
    by (simp only: f length_map)
  then have l: "length (write_video_calls (snd (run T options fs))) = length fs"
    by (simp add: forwarded_def)
  from c d r h f l show ?thesis by simp
qed

text \<open>
  Claim C4, amended, at the codec \<^verbatim>\<open>"mjpeg"\<close>, two frames and a transport whose
  writes fail.
\<close>

theorem codec_mismatch_frames_still_written_witness:
  "codec mjpeg_options \<noteq> ''h264''
   \<and> fst (run writes_fail mjpeg_options [frame_at 0, frame_at 33000]) = None
   \<and> handshakes (snd (run writes_fail mjpeg_options [frame_at 0, frame_at 33000])) = []
   \<and> forwarded (snd (run writes_fail mjpeg_options [frame_at 0, frame_at 33000]))
       = [(4096, 8192, 1024), (4096, 8192, 1024)]"
proof -
  have h: "codec mjpeg_options \<noteq> ''h264''" by (simp add: mjpeg_options_def)
  show ?thesis
    using h codec_mismatch_frames_still_written [OF h, of writes_fail
        "[frame_at 0, frame_at 33000]"]
    by (simp add: writes_fail_def frame_at_def)
qed

text \<open>
  Claim C10. \<^verbatim>\<open>eyecam_net_init\<close> runs in the constructor whatever the options are.
  With a codec other than \<^verbatim>\<open>"h264"\<close> it is the first event, before the error log of
  the codec check; the sink is constructed, and the session stays unreleased until the
  destruction of the sink, whose \<^verbatim>\<open>eyecam_net_deinit\<close> is the last event of the run.
\<close>

theorem disabled_sink_holds_session:
  assumes "codec options \<noteq> ''h264''"
  shows "acquired (snd (WebrtcOutput_ctor T any_options tr)) = acquired tr @ [eyecam_net_init T]
    \<and> snd (WebrtcOutput_ctor T options []) =
        [Net_init (eyecam_net_init T), LOG_ERROR ''Webrtc only works with h264 for now. Sorry!'']
    \<and> fst (run T options fs) = None
    \<and> acquired (snd (run T options fs)) = [eyecam_net_init T]
    \<and> released (butlast (snd (run T options fs))) = []
    \<and> last (snd (run T options fs)) = Net_deinit (eyecam_net_init T)
    \<and> released (snd (run T options fs)) = [eyecam_net_init T]"
proof -
  have r: "fst (run T options fs) = None" by (rule run_mismatch [OF assms])
  have a: "acquired (snd (WebrtcOutput_ctor T any_options tr)) =
      acquired tr @ [eyecam_net_init T]"
    by (rule ctor_session(1))
  have c: "snd (WebrtcOutput_ctor T options []) =
        [Net_init (eyecam_net_init T), LOG_ERROR ''Webrtc only works with h264 for now. Sorry!'']"
    by (simp add: ctor_mismatch [OF assms])
  from r a c run_returned_session(1-4) [OF r] show ?thesis by simp
qed

text \<open>
  Claim C10 at the codec \<^verbatim>\<open>"mjpeg"\<close> and one frame.
\<close>

theorem disabled_sink_holds_session_witness:
  "codec mjpeg_options \<noteq> ''h264''
   \<and> snd (run peer_joins mjpeg_options [frame_at 0]) =
       [Net_init 4096, LOG_ERROR ''Webrtc only works with h264 for now. Sorry!'',
        Net_write_video 4096 1024 8192 0, Net_deinit 4096]
   \<and> acquired (snd (run peer_joins mjpeg_options [frame_at 0])) = [4096]
   \<and> released (butlast (snd (run peer_joins mjpeg_options [frame_at 0]))) = []
   \<and> released (snd (run peer_joins mjpeg_options [frame_at 0])) = [4096]"
proof -
  have h: "codec mjpeg_options \<noteq> ''h264''" by (simp add: mjpeg_options_def)
  have i: "eyecam_net_init peer_joins = 4096" by (simp add: peer_joins_def)
  have t: "snd (run peer_joins mjpeg_options [frame_at 0]) =
       [Net_init 4096, LOG_ERROR ''Webrtc only works with h264 for now. Sorry!'',
        Net_write_video 4096 1024 8192 0, Net_deinit 4096]"
    by (simp add: run_def WebrtcOutput_ctor_def EyecamNet_ctor_def WebrtcOutput_dtor_def
      EyecamNet_dtor_def outputBuffer_def to_uint64_def peer_joins_def mjpeg_options_def
      frame_at_def Let_def)
  show ?thesis
    using h t disabled_sink_holds_session [OF h, of peer_joins h264_options "[]" "[frame_at 0]"]
    by (simp add: i)
qed

subsection \<open>Durations\<close>




text \<open>
  Claim C3. After every call of \<^verbatim>\<open>outputBuffer\<close> with timestamp \<open>t\<^sub>n\<close> the field
  \<^verbatim>\<open>last_timestamp_us\<close> holds \<open>t\<^sub>n\<close>, whatever \<^verbatim>\<open>eyecam_net_write_video\<close> answered:
  the sink that the call leaves behind does not depend on the transport. The field holds
  \<open>t\<^sub>n\<close> converted to \<^verbatim>\<open>uint64_t\<close>, which is \<open>t\<^sub>n\<close> itself for a capture timestamp
  (one that is not negative). So, for timestamps that do not decrease, the next frame's
  duration is \<open>t\<^bsub>n+1\<^esub> - t\<^sub>n\<close>; the timestamp before frame \<open>n\<close> plays no part in it.
\<close>

theorem last_timestamp_updated_unconditionally:
  "last_timestamp_us (fst (outputBuffer T this m sz ts fl tr)) = to_uint64 ts
   \<and> fst (outputBuffer T this m sz ts fl tr) = fst (outputBuffer T' this m sz ts fl tr')
   \<and> uint (last_timestamp_us (fst (outputBuffer T this m sz ts fl tr))) = sint ts mod 2 ^ 64
   \<and> (0 \<le> sint ts \<longrightarrow>
        uint (last_timestamp_us (fst (outputBuffer T this m sz ts fl tr))) = sint ts)
   \<and> durations (snd (outputBuffer T (fst (outputBuffer T this m sz ts fl tr)) m' sz' ts' fl'
                        (snd (outputBuffer T this m sz ts fl tr))))
       = durations tr @ [(sint ts - uint (last_timestamp_us this)) mod 2 ^ 64,
                         (sint ts' - sint ts) mod 2 ^ 64]
   \<and> (sint ts \<le> sint ts' \<longrightarrow>
        durations (snd (outputBuffer T (fst (outputBuffer T this m sz ts fl tr)) m' sz' ts' fl'
                          (snd (outputBuffer T this m sz ts fl tr))))
          = durations tr @ [(sint ts - uint (last_timestamp_us this)) mod 2 ^ 64,
                            sint ts' - sint ts])"
proof -
  let ?first = "outputBuffer T this m sz ts fl tr"
  have stored: "last_timestamp_us (fst ?first) = to_uint64 ts"
    by (simp add: outputBuffer_this)
  have same: "fst ?first = fst (outputBuffer T' this m sz ts fl tr')"
    by (simp only: outputBuffer_this)
  have stored_value: "uint (last_timestamp_us (fst ?first)) = sint ts mod 2 ^ 64"
    by (simp only: stored uint_to_uint64)
  have nonneg: "uint (last_timestamp_us (fst ?first)) = sint ts" if "0 \<le> sint ts"
  proof -
    have "sint ts mod 2 ^ 64 = sint ts"
      using that sint_range64 [of ts] by (intro mod_pos_pos_trivial) simp_all
    with stored_value show ?thesis by simp
  qed
  have "durations (snd (outputBuffer T (fst ?first) m' sz' ts' fl' (snd ?first)))
      = durations (snd ?first) @ [(sint ts' - sint ts) mod 2 ^ 64]"
    by (rule outputBuffer_twice_durations)
  then have next_frame:
    "durations (snd (outputBuffer T (fst ?first) m' sz' ts' fl' (snd ?first)))
       = durations tr @ [(sint ts - uint (last_timestamp_us this)) mod 2 ^ 64,
                         (sint ts' - sint ts) mod 2 ^ 64]"
    by (simp only: outputBuffer_durations append_assoc append_Cons append_Nil)
  have exact:
    "durations (snd (outputBuffer T (fst ?first) m' sz' ts' fl' (snd ?first)))
       = durations tr @ [(sint ts - uint (last_timestamp_us this)) mod 2 ^ 64,
                         sint ts' - sint ts]" if "sint ts \<le> sint ts'"
    by (simp only: next_frame sint_diff_exact [OF that])
  from stored same stored_value nonneg next_frame exact show ?thesis by blast
qed

text \<open>
  Claim C3 at a concrete input: a sink whose last timestamp is 10000 gets a frame at 33000
  whose write fails, then a frame at 66000. The field holds 33000 after the failed write,
  as it does after a write that succeeds, and the second duration is 33000, not 56000.
\<close>

theorem last_timestamp_updated_unconditionally_witness:
  "eyecam_net_write_video writes_fail [] 4096 1024 8192 23000 = 0
   \<and> (0::int) \<le> sint (33000 :: int64_t)
   \<and> sint (33000 :: int64_t) \<le> sint (66000 :: int64_t)
   \<and> uint (last_timestamp_us (fst (outputBuffer writes_fail
         \<lparr>net = \<lparr>state = 4096\<rparr>, last_timestamp_us = 10000\<rparr> 8192 1024 33000 0 []))) = 33000
   \<and> fst (outputBuffer writes_fail
         \<lparr>net = \<lparr>state = 4096\<rparr>, last_timestamp_us = 10000\<rparr> 8192 1024 33000 0 [])
       = fst (outputBuffer peer_joins
         \<lparr>net = \<lparr>state = 4096\<rparr>, last_timestamp_us = 10000\<rparr> 8192 1024 33000 0 [])
   \<and> durations (snd (outputBuffer writes_fail
         (fst (outputBuffer writes_fail
            \<lparr>net = \<lparr>state = 4096\<rparr>, last_timestamp_us = 10000\<rparr> 8192 1024 33000 0 []))
         8192 1024 66000 0
         (snd (outputBuffer writes_fail
            \<lparr>net = \<lparr>state = 4096\<rparr>, last_timestamp_us = 10000\<rparr> 8192 1024 33000 0 []))))
       = [23000, 33000]"
proof -
  have h1: "(0::int) \<le> sint (33000 :: int64_t)" by simp
  have h2: "sint (33000 :: int64_t) \<le> sint (66000 :: int64_t)" by simp
  have f: "eyecam_net_write_video writes_fail [] 4096 1024 8192 23000 = 0"
    by (simp add: writes_fail_def)
  have e: "durations [] = []" by (simp add: durations_def)
  note w = last_timestamp_updated_unconditionally [of writes_fail
        "\<lparr>net = \<lparr>state = 4096\<rparr>, last_timestamp_us = 10000\<rparr>" 8192 1024 33000 0 "[]"
        peer_joins "[]" 8192 1024 66000 0]
  from w h1 have "uint (last_timestamp_us (fst (outputBuffer writes_fail
         \<lparr>net = \<lparr>state = 4096\<rparr>, last_timestamp_us = 10000\<rparr> 8192 1024 33000 0 [])))
       = sint (33000 :: int64_t)" by blast
  then have stored: "uint (last_timestamp_us (fst (outputBuffer writes_fail
         \<lparr>net = \<lparr>state = 4096\<rparr>, last_timestamp_us = 10000\<rparr> 8192 1024 33000 0 []))) = 33000"
    by simp
  from w have same: "fst (outputBuffer writes_fail
         \<lparr>net = \<lparr>state = 4096\<rparr>, last_timestamp_us = 10000\<rparr> 8192 1024 33000 0 [])
       = fst (outputBuffer peer_joins
         \<lparr>net = \<lparr>state = 4096\<rparr>, last_timestamp_us = 10000\<rparr> 8192 1024 33000 0 [])"
    by blast
  from w h2 have "durations (snd (outputBuffer writes_fail
         (fst (outputBuffer writes_fail
            \<lparr>net = \<lparr>state = 4096\<rparr>, last_timestamp_us = 10000\<rparr> 8192 1024 33000 0 []))
         8192 1024 66000 0
         (snd (outputBuffer writes_fail
            \<lparr>net = \<lparr>state = 4096\<rparr>, last_timestamp_us = 10000\<rparr> 8192 1024 33000 0 []))))
       = durations [] @
         [(sint (33000 :: int64_t)
            - uint (last_timestamp_us \<lparr>net = \<lparr>state = 4096\<rparr>, last_timestamp_us = 10000\<rparr>))
           mod 2 ^ 64,
          sint (66000 :: int64_t) - sint (33000 :: int64_t)]" by blast
  then have next_frame: "durations (snd (outputBuffer writes_fail
         (fst (outputBuffer writes_fail
            \<lparr>net = \<lparr>state = 4096\<rparr>, last_timestamp_us = 10000\<rparr> 8192 1024 33000 0 []))
         8192 1024 66000 0
         (snd (outputBuffer writes_fail
            \<lparr>net = \<lparr>state = 4096\<rparr>, last_timestamp_us = 10000\<rparr> 8192 1024 33000 0 []))))
       = [23000, 33000]"
    by (simp add: e)
  from h1 h2 f stored same next_frame show ?thesis by blast
qed

text \<open>
  Claim C9, as stated, at a frame with the largest \<^verbatim>\<open>int64_t\<close> timestamp followed by a
  frame with the smallest: the second timestamp is smaller than the first, and the
  duration handed to \<^verbatim>\<open>eyecam_net_write_video\<close> for it is 1, not a very large value.
\<close>

theorem wrapped_duration_counterexample:
  "timestamps [frame_at 9223372036854775807, frame_at (- 9223372036854775808)]
     = [9223372036854775807, - 9223372036854775808]
   \<and> durations (snd (run peer_joins h264_options
         [frame_at 9223372036854775807, frame_at (- 9223372036854775808)]))
       = [9223372036854775807, 1]"
  by (simp add: run_def WebrtcOutput_ctor_def EyecamNet_ctor_def WebrtcOutput_dtor_def
      EyecamNet_dtor_def outputBuffer_def to_uint64_def peer_joins_def h264_options_def
      frame_at_def durations_def timestamps_def Let_def)

text \<open>
  Claim C9, amended. The duration handed to \<^verbatim>\<open>eyecam_net_write_video\<close> is
  \<open>(timestamp_us - last_timestamp_us) mod 2 ^ 64\<close>, with the timestamp read as a signed
  and the field as an unsigned number. For two frames in a row with timestamps
  \<open>prev\<close> and \<open>ts\<close>: when \<open>ts < prev\<close> the duration is the difference plus \<open>2 ^ 64\<close>,
  a positive number, neither negative nor zero; it is above \<open>2 ^ 63\<close> when \<open>ts\<close> is less
  than \<open>2 ^ 63\<close> below \<open>prev\<close>, as it always is when \<open>ts\<close> is not negative. When
  \<open>prev \<le> ts\<close> the duration is the exact difference.
\<close>

theorem duration_is_unsigned_64_bit_difference:
  "durations (snd (outputBuffer T this m sz ts fl tr)) =
     durations tr @ [(sint ts - uint (last_timestamp_us this)) mod 2 ^ 64]
   \<and> (sint ts < sint prev \<longrightarrow>
        durations (snd (outputBuffer T (fst (outputBuffer T this m0 sz0 prev fl0 tr0)) m sz ts fl tr))
          = durations tr @ [sint ts - sint prev + 2 ^ 64]
        \<and> 0 < sint ts - sint prev + 2 ^ 64)
   \<and> (0 \<le> sint ts \<and> sint ts < sint prev \<longrightarrow> 2 ^ 63 < sint ts - sint prev + 2 ^ 64)
   \<and> (sint prev - sint ts < 2 ^ 63 \<longrightarrow> 2 ^ 63 < sint ts - sint prev + 2 ^ 64)
   \<and> (sint prev \<le> sint ts \<longrightarrow>
        durations (snd (outputBuffer T (fst (outputBuffer T this m0 sz0 prev fl0 tr0)) m sz ts fl tr))
          = durations tr @ [sint ts - sint prev])"
proof -
  let ?second = "outputBuffer T (fst (outputBuffer T this m0 sz0 prev fl0 tr0)) m sz ts fl tr"
  have first: "durations (snd (outputBuffer T this m sz ts fl tr)) =
     durations tr @ [(sint ts - uint (last_timestamp_us this)) mod 2 ^ 64]"
    by (rule outputBuffer_durations)
  have second: "durations (snd ?second) = durations tr @ [(sint ts - sint prev) mod 2 ^ 64]"
    by (rule outputBuffer_twice_durations)
  have wraps: "durations (snd ?second) = durations tr @ [sint ts - sint prev + 2 ^ 64]
      \<and> 0 < sint ts - sint prev + 2 ^ 64" if "sint ts < sint prev"
  proof
    show "durations (snd ?second) = durations tr @ [sint ts - sint prev + 2 ^ 64]"
      by (simp only: second sint_diff_wraps [OF that])
    show "0 < sint ts - sint prev + 2 ^ 64"
      using sint_range64 [of ts] sint_range64 [of prev] by simp
  qed
  have large: "2 ^ 63 < sint ts - sint prev + 2 ^ 64" if "0 \<le> sint ts \<and> sint ts < sint prev"
    using that sint_range64 [of prev] by simp
  have near: "2 ^ 63 < sint ts - sint prev + 2 ^ 64" if "sint prev - sint ts < 2 ^ 63"
    using that by simp
  have exact: "durations (snd ?second) = durations tr @ [sint ts - sint prev]"
    if "sint prev \<le> sint ts"
    by (simp only: second sint_diff_exact [OF that])
  from first wraps large near exact show ?thesis by blast
qed

text \<open>
  Claim C9, amended, at concrete inputs: after a frame at 66000, a frame at 33000 gets the
  duration \<open>2 ^ 64 - 33000\<close> and a frame at 99000 gets the duration 33000.
\<close>

theorem duration_is_unsigned_64_bit_difference_witness:
  "sint (33000 :: int64_t) < sint (66000 :: int64_t)
   \<and> (0::int) \<le> sint (33000 :: int64_t)
   \<and> sint (66000 :: int64_t) - sint (33000 :: int64_t) < 2 ^ 63
   \<and> (2::int) ^ 63 < 18446744073709518616
   \<and> durations (snd (outputBuffer peer_joins
         (fst (outputBuffer peer_joins
            \<lparr>net = \<lparr>state = 4096\<rparr>, last_timestamp_us = 0\<rparr> 8192 1024 66000 0 []))
         8192 1024 33000 0 [])) = [18446744073709518616]
   \<and> sint (66000 :: int64_t) \<le> sint (99000 :: int64_t)
   \<and> durations (snd (outputBuffer peer_joins
         (fst (outputBuffer peer_joins
            \<lparr>net = \<lparr>state = 4096\<rparr>, last_timestamp_us = 0\<rparr> 8192 1024 66000 0 []))
         8192 1024 99000 0 [])) = [33000]"
proof -
  have h1: "sint (33000 :: int64_t) < sint (66000 :: int64_t)" by simp
  have h2: "(0::int) \<le> sint (33000 :: int64_t)" by simp
  have h3: "sint (66000 :: int64_t) \<le> sint (99000 :: int64_t)" by simp
  have e: "durations [] = []" by (simp add: durations_def)
  show ?thesis
    using h1 h2 h3
      duration_is_unsigned_64_bit_difference [of peer_joins
        "\<lparr>net = \<lparr>state = 4096\<rparr>, last_timestamp_us = 0\<rparr>" 8192 1024 33000 0 "[]" 66000 8192 1024 0 "[]"]
      duration_is_unsigned_64_bit_difference [of peer_joins
        "\<lparr>net = \<lparr>state = 4096\<rparr>, last_timestamp_us = 0\<rparr>" 8192 1024 99000 0 "[]" 66000 8192 1024 0 "[]"]
    by (simp add: e)
qed

subsection \<open>Forwarding\<close>

text \<open>
  Claim C8. Delivering a sequence of frames makes exactly one
  \<^verbatim>\<open>eyecam_net_write_video\<close> call per frame, with that frame's data and length, in
  the order of the frames, whatever the calls answer: nothing is held back, repeated,
  reordered or left out.
\<close>

theorem frames_forwarded_once_in_order:
  "forwarded (snd (deliver T this fs tr)) =
     forwarded tr @ map (\<lambda>f. (state (net this), frame_mem f, frame_size f)) fs
   \<and> length (write_video_calls (snd (deliver T this fs []))) = length fs"
proof -
  have f: "forwarded (snd (deliver T this fs tr)) =
     forwarded tr @ map (\<lambda>f. (state (net this), frame_mem f, frame_size f)) fs" for tr
    by (rule deliver_forwarded)
  have "forwarded [] = []"
    by (simp add: forwarded_def)
  then have "length (forwarded (snd (deliver T this fs []))) = length fs"
    by (simp add: f)
  then have "length (write_video_calls (snd (deliver T this fs []))) = length fs"
    by (simp add: forwarded_def)
  with f show ?thesis by simp
qed

subsection \<open>The session\<close>

text \<open>
  Claim C6, as stated, at a handshake that reports failure: the run ends with exit
  status 51 and \<^verbatim>\<open>eyecam_net_deinit\<close> is never called.
\<close>

theorem exit_path_counterexample:
  "fst (run no_peer h264_options []) = Some (Exit 51)
   \<and> released (snd (run no_peer h264_options [])) = []"
  by (simp add: run_def WebrtcOutput_ctor_def EyecamNet_ctor_def no_peer_def
      h264_options_def Let_def)

text \<open>
  Claim C6, amended. When the constructor returns (the peer joined, or the codec did not
  match and the handshake was skipped) \<^verbatim>\<open>eyecam_net_deinit\<close> is called exactly once,
  as the last action of the run. When the handshake reports failure the process exits with
  status 51, and when it never returns nothing follows it: on these two paths
  \<^verbatim>\<open>eyecam_net_deinit\<close> is not called.
\<close>

theorem release_follows_constructor_outcome:
  "(fst (run T options fs) = None \<longrightarrow>
      released (snd (run T options fs)) = [eyecam_net_init T]
      \<and> last (snd (run T options fs)) = Net_deinit (eyecam_net_init T))
   \<and> (fst (run T options fs) \<noteq> None \<longrightarrow> released (snd (run T options fs)) = [])
   \<and> (codec options = ''h264''
        \<and> eyecam_net_wait_for_connection T (eyecam_net_init T) (webrtc options) = Some 0
      \<longrightarrow> fst (run T options fs) = Some (Exit 51))
   \<and> (codec options = ''h264''
        \<and> eyecam_net_wait_for_connection T (eyecam_net_init T) (webrtc options) = None
      \<longrightarrow> fst (run T options fs) = Some Never_returns)
   \<and> (codec options \<noteq> ''h264''
        \<or> (\<exists>c. eyecam_net_wait_for_connection T (eyecam_net_init T) (webrtc options) = Some c
               \<and> c \<noteq> 0)
      \<longrightarrow> fst (run T options fs) = None)"
proof -
  have returned: "released (snd (run T options fs)) = [eyecam_net_init T]
      \<and> last (snd (run T options fs)) = Net_deinit (eyecam_net_init T)"
    if "fst (run T options fs) = None"
    using run_returned_session(2,4) [OF that] by simp
  have halted: "released (snd (run T options fs)) = []" if "fst (run T options fs) \<noteq> None"
  proof -
    from that obtain x where "fst (run T options fs) = Some x" by auto
    then show ?thesis by (rule run_halted_session(2))
  qed
  have alive: "fst (run T options fs) = None"
    if "codec options \<noteq> ''h264''
        \<or> (\<exists>c. eyecam_net_wait_for_connection T (eyecam_net_init T) (webrtc options) = Some c
               \<and> c \<noteq> 0)"
  proof (cases "codec options = ''h264''")
    case True
    with that obtain c
      where "eyecam_net_wait_for_connection T (eyecam_net_init T) (webrtc options) = Some c"
        and "c \<noteq> 0" by auto
    with True show ?thesis by (rule run_connected)
  next
    case False
    then show ?thesis by (rule run_mismatch)
  qed
  from returned halted alive run_no_peer [of options T fs] run_blocked [of options T fs]
  show ?thesis by blast
qed

text \<open>
  Claim C6, amended, at three transports: the peer joins, the handshake reports failure,
  the handshake never returns.
\<close>

theorem release_follows_constructor_outcome_witness:
  "fst (run peer_joins h264_options [frame_at 0]) = None
   \<and> released (snd (run peer_joins h264_options [frame_at 0])) = [4096]
   \<and> last (snd (run peer_joins h264_options [frame_at 0])) = Net_deinit 4096
   \<and> fst (run no_peer h264_options [frame_at 0]) = Some (Exit 51)
   \<and> released (snd (run no_peer h264_options [frame_at 0])) = []
   \<and> fst (run handshake_blocks h264_options [frame_at 0]) = Some Never_returns
   \<and> released (snd (run handshake_blocks h264_options [frame_at 0])) = []"
proof -
  have a: "codec h264_options = ''h264''" by (simp add: h264_options_def)
  have b: "eyecam_net_wait_for_connection peer_joins (eyecam_net_init peer_joins)
      (webrtc h264_options) = Some 1" by (simp add: peer_joins_def)
  have c: "eyecam_net_wait_for_connection no_peer (eyecam_net_init no_peer)
      (webrtc h264_options) = Some 0" by (simp add: no_peer_def)
  have d: "eyecam_net_wait_for_connection handshake_blocks (eyecam_net_init handshake_blocks)
      (webrtc h264_options) = None" by (simp add: handshake_blocks_def)
  have i: "eyecam_net_init peer_joins = 4096" by (simp add: peer_joins_def)
  show ?thesis
    using a b c d
      release_follows_constructor_outcome [of peer_joins h264_options "[frame_at 0]"]
      release_follows_constructor_outcome [of no_peer h264_options "[frame_at 0]"]
      release_follows_constructor_outcome [of handshake_blocks h264_options "[frame_at 0]"]
    by (simp add: i)
qed

text \<open>
  Claim C7. For every sink whose constructor returned, a run that ends with the
  destruction of the sink acquires the session exactly once, in the constructor, and
  releases that same session exactly once, as its last action: nothing is released
  before, and nothing twice.
\<close>

theorem session_acquired_and_released_once:
  assumes "fst (WebrtcOutput_ctor T options []) = Inr this"
  shows "acquired (snd (WebrtcOutput_ctor T options [])) = [eyecam_net_init T]
    \<and> released (snd (WebrtcOutput_ctor T options [])) = []
    \<and> fst (run T options fs) = None
    \<and> acquired (snd (run T options fs)) = [eyecam_net_init T]
    \<and> released (snd (run T options fs)) = [eyecam_net_init T]
    \<and> released (butlast (snd (run T options fs))) = []
    \<and> last (snd (run T options fs)) = Net_deinit (eyecam_net_init T)"
proof -
  have r: "fst (run T options fs) = None"
    using assms ctor_returned [OF assms] by (simp add: run_returned_iff)
  have c: "acquired (snd (WebrtcOutput_ctor T options [])) = [eyecam_net_init T]"
    "released (snd (WebrtcOutput_ctor T options [])) = []"
    by (simp_all add: ctor_session)
  from r c run_returned_session(1-4) [OF r] show ?thesis by simp
qed

text \<open>
  Claim C7 at a transport whose peer joins, with two frames.
\<close>

theorem session_acquired_and_released_once_witness:
  "fst (WebrtcOutput_ctor peer_joins h264_options []) =
     Inr \<lparr>net = \<lparr>state = 4096\<rparr>, last_timestamp_us = 0\<rparr>
   \<and> acquired (snd (run peer_joins h264_options [frame_at 0, frame_at 33000])) = [4096]
   \<and> released (snd (run peer_joins h264_options [frame_at 0, frame_at 33000])) = [4096]
   \<and> last (snd (run peer_joins h264_options [frame_at 0, frame_at 33000])) = Net_deinit 4096"
proof -
  have h: "fst (WebrtcOutput_ctor peer_joins h264_options []) =
     Inr \<lparr>net = \<lparr>state = 4096\<rparr>, last_timestamp_us = 0\<rparr>"
    by (simp add: WebrtcOutput_ctor_def EyecamNet_ctor_def peer_joins_def h264_options_def
        Let_def)
  have i: "eyecam_net_init peer_joins = 4096" by (simp add: peer_joins_def)
  show ?thesis
    using h session_acquired_and_released_once [OF h, of "[frame_at 0, frame_at 33000]"]
    by (simp add: i)
qed

end
